theory Spec2Isabelle
  imports Main
begin

section \<open>Errors\<close>

text \<open>
  The error values of package jsonpatch (encode.go, lines 20-36), of package deep, the
  errors made with \<open>errors.New\<close>, the errors of \<open>encoding/json\<close>, and two
  outcomes that are not Go error values: a run-time panic, and the exhaustion of the fuel
  that bounds the recursions following references of the heap.
\<close>

datatype error =
    ErrNonPointer
  | ErrCouldNotCopy
  | ErrUnmarshal
  | ErrNodeNil
  | ErrIncorrectIndex
  | ErrGarbage
  | ErrNotImplemented
  | ErrUnsupported string
  | ErrorString string
  | DeepErrNonPointer
  | DeepErrDifferentKinds
  | DeepErrUnsupported
  | JsonError string
  | Panic string
  | OutOfFuel

text \<open>An error value that a Go function returns, as opposed to a panic or divergence.\<close>

fun returned :: "error \<Rightarrow> bool" where
  "returned (Panic _) = False"
| "returned OutOfFuel = False"
| "returned _ = True"

section \<open>Strings: the functions of strings, strconv and regexp that the code calls\<close>

text \<open>Strings are byte lists; the case functions are those of ASCII.\<close>

definition isUpperC :: "char \<Rightarrow> bool" where
  "isUpperC c = ((65::nat) \<le> of_char c \<and> of_char c \<le> (90::nat))"

definition isLowerC :: "char \<Rightarrow> bool" where
  "isLowerC c = ((97::nat) \<le> of_char c \<and> of_char c \<le> (122::nat))"

definition isDigitC :: "char \<Rightarrow> bool" where
  "isDigitC c = ((48::nat) \<le> of_char c \<and> of_char c \<le> (57::nat))"

definition toLowerC :: "char \<Rightarrow> char" where
  "toLowerC c = (if isUpperC c then char_of (of_char c + (32::nat)) else c)"

definition toUpperC :: "char \<Rightarrow> char" where
  "toUpperC c = (if isLowerC c then char_of (of_char c - (32::nat)) else c)"

definition strings_ToLower :: "string \<Rightarrow> string" where
  "strings_ToLower s = map toLowerC s"

definition strings_ToUpper :: "string \<Rightarrow> string" where
  "strings_ToUpper s = map toUpperC s"

text \<open>\<open>strings.Trim(s, "/")\<close>.\<close>

definition strings_Trim :: "string \<Rightarrow> string" where
  "strings_Trim s =
     rev (dropWhile (\<lambda>c. c = CHR ''/'') (rev (dropWhile (\<lambda>c. c = CHR ''/'') s)))"

text \<open>\<open>strings.SplitN(path, "/", 2)\<close>: one or two pieces.\<close>

definition strings_SplitN :: "string \<Rightarrow> string list" where
  "strings_SplitN s =
     (if CHR ''/'' \<in> set s
      then [takeWhile (\<lambda>c. c \<noteq> CHR ''/'') s, tl (dropWhile (\<lambda>c. c \<noteq> CHR ''/'') s)]
      else [s])"

text \<open>\<open>strings.Split(j, ",")\<close>.\<close>

fun strings_Split :: "string \<Rightarrow> string list" where
  "strings_Split [] = [[]]"
| "strings_Split (c # cs) =
     (if c = CHR '','' then [] # strings_Split cs
      else (case strings_Split cs of w # ws \<Rightarrow> (c # w) # ws | [] \<Rightarrow> [[c]]))"

text \<open>
  \<open>strconv.Atoi\<close>: an optional sign and decimal digits, within the range of a 64-bit
  int; \<open>None\<close> is the error.
\<close>

definition strconv_Atoi :: "string \<Rightarrow> int option" where
  "strconv_Atoi s =
     (let neg = (s \<noteq> [] \<and> hd s = CHR ''-'');
          ds = (if s \<noteq> [] \<and> (hd s = CHR ''-'' \<or> hd s = CHR ''+'') then tl s else s)
      in if ds = [] \<or> \<not> list_all isDigitC ds then None
         else (let n = foldl (\<lambda>a c. 10 * a + (int (of_char c) - 48)) 0 ds;
                   v = (if neg then - n else n)
               in if v < - (2 ^ 63) \<or> 2 ^ 63 \<le> v then None else Some v))"

text \<open>
  \<open>strings.Title\<close>: the first letter of every word in upper case, a word starting
  after a separator (\<open>isSeparator\<close> of package strings: an ASCII character that is
  neither a letter, a digit nor the underscore).
\<close>

definition isSeparator :: "char \<Rightarrow> bool" where
  "isSeparator c =
     ((of_char c :: nat) \<le> 127 \<and> \<not> (isDigitC c \<or> isLowerC c \<or> isUpperC c \<or> c = CHR ''_''))"

fun titleFrom :: "char \<Rightarrow> string \<Rightarrow> string" where
  "titleFrom prev [] = []"
| "titleFrom prev (c # cs) = (if isSeparator prev then toUpperC c else c) # titleFrom c cs"

definition strings_Title :: "string \<Rightarrow> string" where
  "strings_Title s = titleFrom (CHR '' '') s"

text \<open>\<open>hyphens.ReplaceAllString(name, "")\<close> for the expression \<open>[\-_]\<close> (line 17).\<close>

definition hyphens_remove :: "string \<Rightarrow> string" where
  "hyphens_remove s = filter (\<lambda>c. c \<noteq> CHR ''-'' \<and> c \<noteq> CHR ''_'') s"

section \<open>Go values\<close>

text \<open>
  The types that reflection distinguishes. A struct type lists its fields in order, each
  with its name, the value of its \<open>json\<close> tag and its type. Maps have string keys.
  Channels, functions and unsafe pointers are one opaque type. Types are finite trees, so
  a recursive type is unfolded as far as a value needs; embedded fields are not modelled.
\<close>

datatype gtype =
    TBool | TInt | TFloat64 | TString | TIface | TOther
  | TPtr gtype | TSlice gtype | TArray nat gtype | TMap gtype
  | TStruct "(string \<times> string \<times> gtype) list"

datatype kind =
    KInvalid | KBool | KInt | KFloat64 | KString | KInterface | KOther
  | KPtr | KSlice | KArray | KMap | KStruct

text \<open>
  Values. A pointer is nil or the location of a variable: a heap cell and a path of field
  and element indices inside it. A slice is nil or a backing array (a heap cell holding an
  array), an offset and a length; its capacity is what the backing array has left after
  the offset. A map is nil or a heap cell holding the table. Arrays and structs are held
  inline. An interface holds nothing or a value of any other type. A float64 is
  represented by the integer of the literal it was read from.
\<close>

datatype val =
    VBool bool | VInt int | VFloat64 int | VString string | VOther
  | VIface "val option"
  | VPtr gtype "(nat \<times> nat list) option"
  | VSlice gtype "(nat \<times> nat \<times> nat) option"
  | VMap gtype "nat option"
  | VArray gtype "val list"
  | VStruct "(string \<times> string \<times> val) list"

type_synonym loc = "nat \<times> nat list"

fun typeOf :: "val \<Rightarrow> gtype" where
  "typeOf (VBool _) = TBool"
| "typeOf (VInt _) = TInt"
| "typeOf (VFloat64 _) = TFloat64"
| "typeOf (VString _) = TString"
| "typeOf VOther = TOther"
| "typeOf (VIface _) = TIface"
| "typeOf (VPtr t _) = TPtr t"
| "typeOf (VSlice t _) = TSlice t"
| "typeOf (VMap t _) = TMap t"
| "typeOf (VArray t vs) = TArray (length vs) t"
| "typeOf (VStruct fs) = TStruct (map (\<lambda>(n, tag, v). (n, tag, typeOf v)) fs)"

fun kindOf :: "val \<Rightarrow> kind" where
  "kindOf (VBool _) = KBool"
| "kindOf (VInt _) = KInt"
| "kindOf (VFloat64 _) = KFloat64"
| "kindOf (VString _) = KString"
| "kindOf VOther = KOther"
| "kindOf (VIface _) = KInterface"
| "kindOf (VPtr _ _) = KPtr"
| "kindOf (VSlice _ _) = KSlice"
| "kindOf (VMap _ _) = KMap"
| "kindOf (VArray _ _) = KArray"
| "kindOf (VStruct _) = KStruct"

text \<open>The zero value of a type (\<open>reflect.Zero\<close>, and what \<open>reflect.New\<close> points to).\<close>

fun zero :: "gtype \<Rightarrow> val" where
  "zero TBool = VBool False"
| "zero TInt = VInt 0"
| "zero TFloat64 = VFloat64 0"
| "zero TString = VString []"
| "zero TIface = VIface None"
| "zero TOther = VOther"
| "zero (TPtr t) = VPtr t None"
| "zero (TSlice t) = VSlice t None"
| "zero (TMap t) = VMap t None"
| "zero (TArray n t) = VArray t (replicate n (zero t))"
| "zero (TStruct fs) = VStruct (map (\<lambda>(n, tag, t). (n, tag, zero t)) fs)"

section \<open>The heap\<close>

text \<open>
  A heap cell holds a variable or the table of a map (an association list with distinct
  keys, whose order stands for the order in which \<open>MapKeys\<close> lists them). The heap is
  the list of its cells; allocation appends a cell.
\<close>

datatype cell = CVar val | CMap "(string \<times> val) list"

type_synonym heap = "cell list"

fun sel :: "val \<Rightarrow> nat list \<Rightarrow> val option" where
  "sel v [] = Some v"
| "sel v (i # p) =
     (case v of
        VStruct fs \<Rightarrow> (if i < length fs then sel (snd (snd (fs ! i))) p else None)
      | VArray t vs \<Rightarrow> (if i < length vs then sel (vs ! i) p else None)
      | _ \<Rightarrow> None)"

fun upd :: "val \<Rightarrow> nat list \<Rightarrow> val \<Rightarrow> val option" where
  "upd v [] w = Some w"
| "upd v (i # p) w =
     (case v of
        VStruct fs \<Rightarrow>
          (if i < length fs
           then (case upd (snd (snd (fs ! i))) p w of
                   None \<Rightarrow> None
                 | Some u \<Rightarrow> Some (VStruct (fs[i := (fst (fs ! i), fst (snd (fs ! i)), u)])))
           else None)
      | VArray t vs \<Rightarrow>
          (if i < length vs
           then (case upd (vs ! i) p w of
                   None \<Rightarrow> None
                 | Some u \<Rightarrow> Some (VArray t (vs[i := u])))
           else None)
      | _ \<Rightarrow> None)"

definition load :: "heap \<Rightarrow> loc \<Rightarrow> val option" where
  "load h l =
     (if fst l < length h
      then (case h ! fst l of CVar v \<Rightarrow> sel v (snd l) | CMap _ \<Rightarrow> None)
      else None)"

definition store :: "heap \<Rightarrow> loc \<Rightarrow> val \<Rightarrow> heap option" where
  "store h l w =
     (if fst l < length h
      then (case h ! fst l of
              CVar v \<Rightarrow> (case upd v (snd l) w of
                           None \<Rightarrow> None
                         | Some u \<Rightarrow> Some (h[fst l := CVar u]))
            | CMap _ \<Rightarrow> None)
      else None)"

definition table :: "heap \<Rightarrow> nat \<Rightarrow> (string \<times> val) list option" where
  "table h a =
     (if a < length h then (case h ! a of CMap kvs \<Rightarrow> Some kvs | CVar _ \<Rightarrow> None) else None)"

text \<open>The elements of a backing array, and the capacity of a slice over it.\<close>

definition backing :: "heap \<Rightarrow> nat \<Rightarrow> val list" where
  "backing h a = (case load h (a, []) of Some (VArray t vs) \<Rightarrow> vs | _ \<Rightarrow> [])"

definition elems :: "heap \<Rightarrow> val \<Rightarrow> val list" where
  "elems h v =
     (case v of
        VSlice t (Some (a, off, n)) \<Rightarrow> take n (drop off (backing h a))
      | VArray t vs \<Rightarrow> vs
      | _ \<Rightarrow> [])"

section \<open>Computations\<close>

text \<open>
  A computation takes the heap and returns an error or a result, and the heap it leaves:
  what a failed call has written stays written.
\<close>

type_synonym 'a go = "heap \<Rightarrow> (error + 'a) \<times> heap"

definition ret :: "'a \<Rightarrow> 'a go" where
  "ret a h = (Inr a, h)"

definition throw :: "error \<Rightarrow> 'a go" where
  "throw e h = (Inl e, h)"

definition bindG :: "'a go \<Rightarrow> ('a \<Rightarrow> 'b go) \<Rightarrow> 'b go" where
  "bindG m f h = (case m h of (Inl e, h') \<Rightarrow> (Inl e, h') | (Inr a, h') \<Rightarrow> f a h')"

definition alloc :: "cell \<Rightarrow> nat go" where
  "alloc c h = (Inr (length h), h @ [c])"

section \<open>Package reflect\<close>

text \<open>
  A \<open>reflect.Value\<close> is the zero Value, a value that is not addressable (a copy: what
  \<open>ValueOf\<close>, \<open>MapIndex\<close>, \<open>New\<close> and \<open>Addr\<close> return), or an addressable
  variable of the heap (what \<open>Elem\<close> of a pointer, \<open>Index\<close> of a slice and
  \<open>Field\<close> of an addressable struct return). The flag says that the Value was obtained
  through an unexported struct field, so that it can be read by reflection but neither set
  nor turned into an interface.
\<close>

datatype rvalue = RInvalid | RVal val bool | RLoc "nat \<times> nat list" bool

definition isRO :: "rvalue \<Rightarrow> bool" where
  "isRO x = (case x of RInvalid \<Rightarrow> False | RVal _ ro \<Rightarrow> ro | RLoc _ ro \<Rightarrow> ro)"

definition valueAt :: "heap \<Rightarrow> rvalue \<Rightarrow> val option" where
  "valueAt h x = (case x of RInvalid \<Rightarrow> None | RVal v _ \<Rightarrow> Some v | RLoc l _ \<Rightarrow> load h l)"

definition Value_Kind :: "heap \<Rightarrow> rvalue \<Rightarrow> kind" where
  "Value_Kind h x = (case valueAt h x of None \<Rightarrow> KInvalid | Some v \<Rightarrow> kindOf v)"

definition Value_IsValid :: "heap \<Rightarrow> rvalue \<Rightarrow> bool" where
  "Value_IsValid h x = (valueAt h x \<noteq> None)"

definition Value_CanAddr :: "rvalue \<Rightarrow> bool" where
  "Value_CanAddr x = (case x of RLoc _ _ \<Rightarrow> True | _ \<Rightarrow> False)"

text \<open>\<open>IsNil\<close> is only called on pointers and maps in the code.\<close>

definition Value_IsNil :: "heap \<Rightarrow> rvalue \<Rightarrow> bool" where
  "Value_IsNil h x =
     (case valueAt h x of
        Some (VPtr _ None) \<Rightarrow> True
      | Some (VSlice _ None) \<Rightarrow> True
      | Some (VMap _ None) \<Rightarrow> True
      | Some (VIface None) \<Rightarrow> True
      | _ \<Rightarrow> False)"

definition Value_Type :: "rvalue \<Rightarrow> gtype go" where
  "Value_Type x h =
     (case valueAt h x of
        None \<Rightarrow> (Inl (Panic ''reflect: call of reflect.Value.Type on zero Value''), h)
      | Some v \<Rightarrow> (Inr (typeOf v), h))"

text \<open>\<open>Type.Elem\<close>: the element type of a pointer, slice, array or map type.\<close>

definition Type_Elem :: "gtype \<Rightarrow> gtype go" where
  "Type_Elem t =
     (case t of
        TPtr e \<Rightarrow> ret e
      | TSlice e \<Rightarrow> ret e
      | TArray n e \<Rightarrow> ret e
      | TMap e \<Rightarrow> ret e
      | _ \<Rightarrow> throw (Panic ''reflect: Elem of invalid type''))"

text \<open>
  \<open>Value.Elem\<close>, which the code calls on pointers only: the variable pointed to, or the
  zero Value for nil. \<open>reflect.Indirect\<close> is \<open>Elem\<close> on a pointer.
\<close>

definition Value_Elem :: "heap \<Rightarrow> rvalue \<Rightarrow> rvalue" where
  "Value_Elem h x =
     (case valueAt h x of
        Some (VPtr t (Some l)) \<Rightarrow> RLoc l (isRO x)
      | Some (VIface (Some v)) \<Rightarrow> RVal v (isRO x)
      | _ \<Rightarrow> RInvalid)"

definition reflect_Indirect :: "heap \<Rightarrow> rvalue \<Rightarrow> rvalue" where
  "reflect_Indirect h x = (if Value_Kind h x \<noteq> KPtr then x else Value_Elem h x)"

definition Value_Len :: "heap \<Rightarrow> rvalue \<Rightarrow> nat" where
  "Value_Len h x =
     (case valueAt h x of
        Some (VSlice t (Some (a, off, n))) \<Rightarrow> n
      | Some (VArray t vs) \<Rightarrow> length vs
      | Some (VMap t (Some a)) \<Rightarrow> (case table h a of Some kvs \<Rightarrow> length kvs | None \<Rightarrow> 0)
      | Some (VString s) \<Rightarrow> length s
      | _ \<Rightarrow> 0)"

text \<open>\<open>Value.Index\<close> panics out of range; an element of a slice is always addressable.\<close>

definition Value_Index :: "rvalue \<Rightarrow> int \<Rightarrow> rvalue go" where
  "Value_Index x i h =
     (case valueAt h x of
        Some (VSlice t s) \<Rightarrow>
          (case s of
             Some (a, off, n) \<Rightarrow>
               (if 0 \<le> i \<and> i < int n then (Inr (RLoc (a, [off + nat i]) (isRO x)), h)
                else (Inl (Panic ''reflect: slice index out of range''), h))
           | None \<Rightarrow> (Inl (Panic ''reflect: slice index out of range''), h))
      | Some (VArray t vs) \<Rightarrow>
          (if 0 \<le> i \<and> i < int (length vs)
           then (case x of
                   RLoc l ro \<Rightarrow> (Inr (RLoc (fst l, snd l @ [nat i]) ro), h)
                 | _ \<Rightarrow> (Inr (RVal (vs ! nat i) (isRO x)), h))
           else (Inl (Panic ''reflect: array index out of range''), h))
      | _ \<Rightarrow> (Inl (Panic ''reflect: call of reflect.Value.Index on a value that is not indexable''), h))"

text \<open>\<open>Value.MapIndex\<close>: a copy of the element, or the zero Value for an absent key.\<close>

definition Value_MapIndex :: "heap \<Rightarrow> rvalue \<Rightarrow> string \<Rightarrow> rvalue" where
  "Value_MapIndex h x key =
     (case valueAt h x of
        Some (VMap t (Some a)) \<Rightarrow>
          (case table h a of
             Some kvs \<Rightarrow> (case map_of kvs key of Some v \<Rightarrow> RVal v (isRO x) | None \<Rightarrow> RInvalid)
           | None \<Rightarrow> RInvalid)
      | _ \<Rightarrow> RInvalid)"

definition Value_MapKeys :: "heap \<Rightarrow> rvalue \<Rightarrow> string list" where
  "Value_MapKeys h x =
     (case valueAt h x of
        Some (VMap t (Some a)) \<Rightarrow> (case table h a of Some kvs \<Rightarrow> map fst kvs | None \<Rightarrow> [])
      | _ \<Rightarrow> [])"

text \<open>A field name is exported when it starts with an upper-case letter.\<close>

definition exported :: "string \<Rightarrow> bool" where
  "exported name = (name \<noteq> [] \<and> isUpperC (hd name))"

text \<open>\<open>Value.Field(i)\<close> of a struct; the code calls it within \<open>NumField\<close>.\<close>

definition Value_Field :: "heap \<Rightarrow> rvalue \<Rightarrow> nat \<Rightarrow> rvalue" where
  "Value_Field h x i =
     (case valueAt h x of
        Some (VStruct fs) \<Rightarrow>
          (if i < length fs
           then (case x of
                   RLoc l ro \<Rightarrow> RLoc (fst l, snd l @ [i]) (ro \<or> \<not> exported (fst (fs ! i)))
                 | _ \<Rightarrow> RVal (snd (snd (fs ! i))) (isRO x \<or> \<not> exported (fst (fs ! i))))
           else RInvalid)
      | _ \<Rightarrow> RInvalid)"

fun fieldIndex :: "string \<Rightarrow> (string \<times> 'a) list \<Rightarrow> nat option" where
  "fieldIndex name [] = None"
| "fieldIndex name (f # fs) =
     (if fst f = name then Some 0
      else (case fieldIndex name fs of None \<Rightarrow> None | Some i \<Rightarrow> Some (Suc i)))"

text \<open>\<open>Value.FieldByName\<close>: the zero Value when the struct has no field of that name.\<close>

definition Value_FieldByName :: "heap \<Rightarrow> rvalue \<Rightarrow> string \<Rightarrow> rvalue" where
  "Value_FieldByName h x name =
     (case valueAt h x of
        Some (VStruct fs) \<Rightarrow>
          (case fieldIndex name fs of None \<Rightarrow> RInvalid | Some i \<Rightarrow> Value_Field h x i)
      | _ \<Rightarrow> RInvalid)"

text \<open>\<open>Value.NumField\<close> and the fields of the type of a struct value.\<close>

definition structFields :: "heap \<Rightarrow> rvalue \<Rightarrow> (string \<times> string \<times> gtype) list" where
  "structFields h x =
     (case valueAt h x of
        Some (VStruct fs) \<Rightarrow> map (\<lambda>(n, tag, v). (n, tag, typeOf v)) fs
      | _ \<Rightarrow> [])"

text \<open>
  Assignment converts to the type of the variable: the types are identical, or the
  variable is an interface, which then holds the value.
\<close>

definition assignTo :: "val \<Rightarrow> gtype \<Rightarrow> val option" where
  "assignTo v t =
     (if typeOf v = t then Some v
      else if t = TIface then Some (VIface (Some v))
      else None)"

text \<open>
  \<open>x.Set(y)\<close> panics unless \<open>x\<close> is addressable and was not obtained through an unexported
  field, \<open>y\<close> is valid and exported, and the type of \<open>y\<close> is assignable to that of \<open>x\<close>.
\<close>

definition Value_Set :: "rvalue \<Rightarrow> rvalue \<Rightarrow> unit go" where
  "Value_Set x y h =
     (case x of
        RLoc l ro \<Rightarrow>
          (if ro then (Inl (Panic ''reflect: reflect.Value.Set using value obtained using unexported field''), h)
           else (case load h l of
                   None \<Rightarrow> (Inl (Panic ''reflect: call of reflect.Value.Set on zero Value''), h)
                 | Some old \<Rightarrow>
                     (case valueAt h y of
                        None \<Rightarrow> (Inl (Panic ''reflect: call of reflect.Value.Set on zero Value''), h)
                      | Some v \<Rightarrow>
                          (if isRO y then (Inl (Panic ''reflect: reflect.Value.Set using value obtained using unexported field''), h)
                           else (case assignTo v (typeOf old) of
                                   None \<Rightarrow> (Inl (Panic ''reflect.Set: value is not assignable to type''), h)
                                 | Some w \<Rightarrow>
                                     (case store h l w of
                                        None \<Rightarrow> (Inl (Panic ''reflect: call of reflect.Value.Set on zero Value''), h)
                                      | Some h' \<Rightarrow> (Inr (), h')))))))
      | RVal v ro \<Rightarrow> (Inl (Panic ''reflect: reflect.Value.Set using unaddressable value''), h)
      | RInvalid \<Rightarrow> (Inl (Panic ''reflect: call of reflect.Value.Set on zero Value''), h))"

definition Value_Addr :: "rvalue \<Rightarrow> rvalue go" where
  "Value_Addr x h =
     (case x of
        RLoc l ro \<Rightarrow>
          (case load h l of
             Some v \<Rightarrow> (Inr (RVal (VPtr (typeOf v) (Some l)) ro), h)
           | None \<Rightarrow> (Inl (Panic ''reflect.Value.Addr of unaddressable value''), h))
      | _ \<Rightarrow> (Inl (Panic ''reflect.Value.Addr of unaddressable value''), h))"

text \<open>
  \<open>Value.Interface\<close>: the value as an \<open>interface{}\<close>, which is nil (\<open>None\<close>) or holds a
  value that is not itself an interface.
\<close>

definition Value_Interface :: "rvalue \<Rightarrow> val option go" where
  "Value_Interface x h =
     (case valueAt h x of
        None \<Rightarrow> (Inl (Panic ''reflect: call of reflect.Value.Interface on zero Value''), h)
      | Some v \<Rightarrow>
          (if isRO x then (Inl (Panic ''reflect.Value.Interface: cannot return value obtained from unexported field or method''), h)
           else (case v of VIface d \<Rightarrow> (Inr d, h) | _ \<Rightarrow> (Inr (Some v), h))))"

definition reflect_ValueOf :: "val option \<Rightarrow> rvalue" where
  "reflect_ValueOf i = (case i of None \<Rightarrow> RInvalid | Some v \<Rightarrow> RVal v False)"

definition reflect_Zero :: "gtype \<Rightarrow> rvalue" where
  "reflect_Zero t = RVal (zero t) False"

definition reflect_New :: "gtype \<Rightarrow> rvalue go" where
  "reflect_New t = bindG (alloc (CVar (zero t))) (\<lambda>a. ret (RVal (VPtr t (Some (a, []))) False))"

definition reflect_MakeSlice :: "gtype \<Rightarrow> int \<Rightarrow> int \<Rightarrow> rvalue go" where
  "reflect_MakeSlice t n c =
     (case t of
        TSlice e \<Rightarrow>
          (if n < 0 then throw (Panic ''reflect.MakeSlice: negative len'')
           else if c < 0 then throw (Panic ''reflect.MakeSlice: negative cap'')
           else if c < n then throw (Panic ''reflect.MakeSlice: len > cap'')
           else bindG (alloc (CVar (VArray e (replicate (nat c) (zero e)))))
                  (\<lambda>a. ret (RVal (VSlice e (Some (a, 0, nat n))) False)))
      | _ \<Rightarrow> throw (Panic ''reflect.MakeSlice of non-slice type''))"

definition reflect_MakeMap :: "gtype \<Rightarrow> rvalue go" where
  "reflect_MakeMap t =
     (case t of
        TMap e \<Rightarrow> bindG (alloc (CMap [])) (\<lambda>a. ret (RVal (VMap e (Some a)) False))
      | _ \<Rightarrow> throw (Panic ''reflect.MakeMap of non-map type''))"

text \<open>
  \<open>m.SetMapIndex(key, elem)\<close>: with the zero Value as \<open>elem\<close> the key is deleted;
  otherwise the entry is set, which panics on a nil map.
\<close>

fun tableSet :: "string \<Rightarrow> val \<Rightarrow> (string \<times> val) list \<Rightarrow> (string \<times> val) list" where
  "tableSet k v [] = [(k, v)]"
| "tableSet k v (e # es) = (if fst e = k then (k, v) # es else e # tableSet k v es)"

definition Value_SetMapIndex :: "rvalue \<Rightarrow> string \<Rightarrow> rvalue \<Rightarrow> unit go" where
  "Value_SetMapIndex m key e h =
     (if isRO m \<or> isRO e
      then (Inl (Panic ''reflect: reflect.Value.SetMapIndex using value obtained using unexported field''), h)
      else (case valueAt h m of
              Some (VMap t mp) \<Rightarrow>
                (case valueAt h e of
                   None \<Rightarrow>
                     (case mp of
                        None \<Rightarrow> (Inr (), h)
                      | Some a \<Rightarrow>
                          (case table h a of
                             None \<Rightarrow> (Inl (Panic ''reflect: dangling map''), h)
                           | Some kvs \<Rightarrow> (Inr (), h[a := CMap (filter (\<lambda>kv. fst kv \<noteq> key) kvs)])))
                 | Some v \<Rightarrow>
                     (case assignTo v t of
                        None \<Rightarrow> (Inl (Panic ''reflect.Value.SetMapIndex: value is not assignable to type''), h)
                      | Some w \<Rightarrow>
                          (case mp of
                             None \<Rightarrow> (Inl (Panic ''assignment to entry in nil map''), h)
                           | Some a \<Rightarrow>
                               (case table h a of
                                  None \<Rightarrow> (Inl (Panic ''reflect: dangling map''), h)
                                | Some kvs \<Rightarrow> (Inr (), h[a := CMap (tableSet key w kvs)])))))
            | _ \<Rightarrow> (Inl (Panic ''reflect: call of reflect.Value.SetMapIndex on a value that is not a map''), h)))"

text \<open>\<open>v.Slice(i, j)\<close> of a slice: the bounds are checked against the capacity.\<close>

definition Value_Slice :: "rvalue \<Rightarrow> int \<Rightarrow> int \<Rightarrow> rvalue go" where
  "Value_Slice x i j h =
     (case valueAt h x of
        Some (VSlice t s) \<Rightarrow>
          (case s of
             Some (a, off, n) \<Rightarrow>
               (if 0 \<le> i \<and> i \<le> j \<and> j \<le> int (length (backing h a) - off)
                then (Inr (RVal (VSlice t (Some (a, off + nat i, nat (j - i)))) (isRO x)), h)
                else (Inl (Panic ''reflect.Value.Slice: slice index out of bounds''), h))
           | None \<Rightarrow>
               (if i = 0 \<and> j = 0 then (Inr (RVal (VSlice t None) (isRO x)), h)
                else (Inl (Panic ''reflect.Value.Slice: slice index out of bounds''), h)))
      | _ \<Rightarrow> (Inl (Panic ''reflect: call of reflect.Value.Slice on a value that is not a slice''), h))"

text \<open>
  \<open>reflect.Append(s, x)\<close> writes into the spare capacity of the backing array when there
  is some, and otherwise moves the elements to a new backing array.
\<close>

definition append1 :: "gtype \<Rightarrow> (nat \<times> nat \<times> nat) option \<Rightarrow> val \<Rightarrow> val go" where
  "append1 t s w h =
     (case s of
        Some (a, off, n) \<Rightarrow>
          (if off + n < length (backing h a)
           then (case store h (a, [off + n]) w of
                   Some h' \<Rightarrow> (Inr (VSlice t (Some (a, off, Suc n))), h')
                 | None \<Rightarrow> (Inl (Panic ''reflect.Append: dangling slice''), h))
           else (Inr (VSlice t (Some (length h, 0, Suc n))),
                 h @ [CVar (VArray t (take n (drop off (backing h a)) @ [w]))]))
      | None \<Rightarrow> (Inr (VSlice t (Some (length h, 0, 1))), h @ [CVar (VArray t [w])]))"

fun appendAll :: "gtype \<Rightarrow> (nat \<times> nat \<times> nat) option \<Rightarrow> val list \<Rightarrow> val go" where
  "appendAll t s [] = ret (VSlice t s)"
| "appendAll t s (w # ws) =
     bindG (append1 t s w)
       (\<lambda>v. case v of VSlice t' s' \<Rightarrow> appendAll t s' ws | _ \<Rightarrow> throw (Panic ''reflect.Append''))"

definition reflect_Append :: "rvalue \<Rightarrow> rvalue \<Rightarrow> rvalue go" where
  "reflect_Append s x h =
     (if isRO s \<or> isRO x
      then (Inl (Panic ''reflect: reflect.Append using value obtained using unexported field''), h)
      else (case valueAt h s of
              Some (VSlice t sl) \<Rightarrow>
                (case valueAt h x of
                   None \<Rightarrow> (Inl (Panic ''reflect: call of reflect.Value.Set on zero Value''), h)
                 | Some v \<Rightarrow>
                     (case assignTo v t of
                        None \<Rightarrow> (Inl (Panic ''reflect.Append: value is not assignable to type''), h)
                      | Some w \<Rightarrow> bindG (append1 t sl w) (\<lambda>r. ret (RVal r False)) h))
            | _ \<Rightarrow> (Inl (Panic ''reflect: call of reflect.Append on a value that is not a slice''), h)))"

definition reflect_AppendSlice :: "rvalue \<Rightarrow> rvalue \<Rightarrow> rvalue go" where
  "reflect_AppendSlice s x h =
     (if isRO s \<or> isRO x
      then (Inl (Panic ''reflect: reflect.AppendSlice using value obtained using unexported field''), h)
      else (case valueAt h s of
              Some (VSlice t sl) \<Rightarrow>
                (case valueAt h x of
                   Some (VSlice t' sl') \<Rightarrow>
                     (if t' = t
                      then bindG (appendAll t sl (elems h (VSlice t' sl'))) (\<lambda>r. ret (RVal r False)) h
                      else (Inl (Panic ''reflect.AppendSlice: slices of different types''), h))
                 | _ \<Rightarrow> (Inl (Panic ''reflect: call of reflect.AppendSlice on a value that is not a slice''), h))
            | _ \<Rightarrow> (Inl (Panic ''reflect: call of reflect.AppendSlice on a value that is not a slice''), h)))"

text \<open>\<open>reflect.Copy(dst, src)\<close> for two slices: as many elements as both have.\<close>

fun storeAll :: "nat \<Rightarrow> nat \<Rightarrow> val list \<Rightarrow> heap \<Rightarrow> heap" where
  "storeAll a i [] h = h"
| "storeAll a i (w # ws) h =
     storeAll a (Suc i) ws (case store h (a, [i]) w of Some h' \<Rightarrow> h' | None \<Rightarrow> h)"

definition reflect_Copy :: "rvalue \<Rightarrow> rvalue \<Rightarrow> unit go" where
  "reflect_Copy dst src h =
     (if isRO dst \<or> isRO src
      then (Inl (Panic ''reflect: reflect.Copy using value obtained using unexported field''), h)
      else (case valueAt h dst of
              Some (VSlice t d) \<Rightarrow>
                (case valueAt h src of
                   Some (VSlice t' s) \<Rightarrow>
                     (if t' = t
                      then (case d of
                              Some (a, off, n) \<Rightarrow>
                                (Inr (), storeAll a off (take n (elems h (VSlice t' s))) h)
                            | None \<Rightarrow> (Inr (), h))
                      else (Inl (Panic ''reflect.Copy: unequal types''), h))
                 | _ \<Rightarrow> (Inl (Panic ''reflect: call of reflect.Copy on a value that is not a slice''), h))
            | _ \<Rightarrow> (Inl (Panic ''reflect: call of reflect.Copy on a value that is not a slice''), h)))"

definition gets :: "(heap \<Rightarrow> 'a) \<Rightarrow> 'a go" where
  "gets f h = (Inr (f h), h)"

section \<open>Package encoding/json\<close>

text \<open>
  A JSON document that has passed the syntax check, as a tree. Number literals are
  integers.
\<close>

datatype json =
    JNull | JBool bool | JNum int | JStr string
  | JArr "json list" | JObj "(string \<times> json) list"

text \<open>
  Decoding into an empty interface: nil for null, a bool, a float64, a string, a new
  \<open>[]interface{}\<close> or a new \<open>map[string]interface{}\<close>.
\<close>

fun ifaceOf :: "json \<Rightarrow> val option go"
  and ifacesOf :: "json list \<Rightarrow> val list go"
  and entriesOf :: "(string \<times> json) list \<Rightarrow> (string \<times> val) list go" where
  "ifaceOf JNull = ret None"
| "ifaceOf (JBool b) = ret (Some (VBool b))"
| "ifaceOf (JNum n) = ret (Some (VFloat64 n))"
| "ifaceOf (JStr s) = ret (Some (VString s))"
| "ifaceOf (JArr js) =
     bindG (ifacesOf js)
       (\<lambda>vs. bindG (alloc (CVar (VArray TIface vs)))
          (\<lambda>a. ret (Some (VSlice TIface (Some (a, 0, length vs))))))"
| "ifaceOf (JObj kvs) =
     bindG (entriesOf kvs)
       (\<lambda>es. bindG (alloc (CMap es)) (\<lambda>a. ret (Some (VMap TIface (Some a)))))"
| "ifacesOf [] = ret []"
| "ifacesOf (j # js) =
     bindG (ifaceOf j) (\<lambda>v. bindG (ifacesOf js) (\<lambda>vs. ret (VIface v # vs)))"
| "entriesOf [] = ret []"
| "entriesOf (kv # kvs) =
     bindG (ifaceOf (snd kv))
       (\<lambda>v. bindG (entriesOf kvs)
          (\<lambda>es. ret ((fst kv, VIface v) # filter (\<lambda>e. fst e \<noteq> fst kv) es)))"

text \<open>
  Storing a JSON value into a variable that is neither a pointer nor an interface holding
  a pointer (\<open>literalStore\<close>, \<open>array\<close> and \<open>object\<close> of the decoder). The type of
  the variable is the type of the value it holds. A JSON array or object decoded into a
  slice, array, struct or map is beyond this model of the library, and is reported as an
  error of its own.
\<close>

definition setVar :: "loc \<Rightarrow> val \<Rightarrow> unit go" where
  "setVar l w h =
     (case store h l w of
        None \<Rightarrow> (Inl (Panic ''invalid memory address''), h)
      | Some h' \<Rightarrow> (Inr (), h'))"

definition storeJSON :: "json \<Rightarrow> loc \<Rightarrow> val \<Rightarrow> unit go" where
  "storeJSON j l v =
     (case j of
        JNull \<Rightarrow>
          (if kindOf v \<in> {KInterface, KPtr, KMap, KSlice} then setVar l (zero (typeOf v))
           else ret ())
      | JBool b \<Rightarrow>
          (case v of
             VBool _ \<Rightarrow> setVar l (VBool b)
           | VIface _ \<Rightarrow> setVar l (VIface (Some (VBool b)))
           | _ \<Rightarrow> throw (JsonError ''json: cannot unmarshal bool into Go value''))
      | JNum n \<Rightarrow>
          (case v of
             VInt _ \<Rightarrow>
               (if n < - (2 ^ 63) \<or> 2 ^ 63 \<le> n
                then throw (JsonError ''json: cannot unmarshal number into Go value'')
                else setVar l (VInt n))
           | VFloat64 _ \<Rightarrow> setVar l (VFloat64 n)
           | VIface _ \<Rightarrow> setVar l (VIface (Some (VFloat64 n)))
           | _ \<Rightarrow> throw (JsonError ''json: cannot unmarshal number into Go value''))
      | JStr s \<Rightarrow>
          (case v of
             VString _ \<Rightarrow> setVar l (VString s)
           | VIface _ \<Rightarrow> setVar l (VIface (Some (VString s)))
           | _ \<Rightarrow> throw (JsonError ''json: cannot unmarshal string into Go value''))
      | JArr js \<Rightarrow>
          (case v of
             VIface _ \<Rightarrow> bindG (ifaceOf (JArr js)) (\<lambda>d. setVar l (VIface d))
           | VSlice _ _ \<Rightarrow> throw (JsonError ''array into a slice: not modelled'')
           | VArray _ _ \<Rightarrow> throw (JsonError ''array into an array: not modelled'')
           | _ \<Rightarrow> throw (JsonError ''json: cannot unmarshal array into Go value''))
      | JObj kvs \<Rightarrow>
          (case v of
             VIface _ \<Rightarrow> bindG (ifaceOf (JObj kvs)) (\<lambda>d. setVar l (VIface d))
           | VStruct _ \<Rightarrow> throw (JsonError ''object into a struct: not modelled'')
           | VMap _ _ \<Rightarrow> throw (JsonError ''object into a map: not modelled'')
           | _ \<Rightarrow> throw (JsonError ''json: cannot unmarshal object into Go value'')))"

text \<open>
  The decoder's \<open>indirect\<close> followed by the store. An interface holding a non-nil pointer
  is decoded into what the pointer points to; a pointer is set to nil by null, and
  otherwise followed, after allocating when it is nil. The fuel bounds the number of
  references followed.
\<close>

fun decode :: "nat \<Rightarrow> json \<Rightarrow> loc \<Rightarrow> unit go" where
  "decode 0 j l = throw OutOfFuel"
| "decode (Suc n) j l =
     (\<lambda>h. case load h l of
        None \<Rightarrow> (Inl (Panic ''invalid memory address''), h)
      | Some v \<Rightarrow>
          (case v of
             VIface (Some (VPtr t (Some l'))) \<Rightarrow>
               (if j \<noteq> JNull \<or> (case load h l' of Some w \<Rightarrow> kindOf w = KPtr | None \<Rightarrow> False)
                then decode n j l' h
                else storeJSON j l v h)
           | VPtr t po \<Rightarrow>
               (if j = JNull then setVar l (VPtr t None) h
                else (case po of
                        Some l' \<Rightarrow> decode n j l' h
                      | None \<Rightarrow>
                          bindG (alloc (CVar (zero t)))
                            (\<lambda>a. bindG (setVar l (VPtr t (Some (a, []))))
                               (\<lambda>_. decode n j (a, []))) h))
           | _ \<Rightarrow> storeJSON j l v h))"

text \<open>
  \<open>json.Unmarshal(data, v)\<close>: \<open>data\<close> is \<open>None\<close> when the bytes are not a JSON value
  (an empty \<open>RawMessage\<close> among them); \<open>v\<close> must be a non-nil pointer.
\<close>

definition json_Unmarshal :: "nat \<Rightarrow> json option \<Rightarrow> val option \<Rightarrow> unit go" where
  "json_Unmarshal fuel data v =
     (case data of
        None \<Rightarrow> throw (JsonError ''unexpected end of JSON input'')
      | Some j \<Rightarrow>
          (case v of
             Some (VPtr t (Some l)) \<Rightarrow> decode fuel j l
           | _ \<Rightarrow> throw (JsonError ''json: Unmarshal(non-pointer)'')))"

text \<open>
  The statement \<open>err := json.Unmarshal(data, &n)\<close> for a local variable \<open>n\<close> of type
  \<open>interface{}\<close>: the variable has a cell of its own, and its content after the call is
  the result.
\<close>

definition json_Unmarshal_local :: "nat \<Rightarrow> json option \<Rightarrow> val option \<Rightarrow> val option go" where
  "json_Unmarshal_local fuel data n =
     bindG (alloc (CVar (VIface n)))
       (\<lambda>a. bindG (json_Unmarshal fuel data (Some (VPtr TIface (Some (a, [])))))
          (\<lambda>_. gets (\<lambda>h. case load h (a, []) of Some (VIface d) \<Rightarrow> d | _ \<Rightarrow> None)))"

section \<open>reflect.DeepEqual\<close>

text \<open>
  Deep equality compares types first, follows pointers, slices, maps and interfaces, and
  takes two references to the same object as equal. One step either decides, or leaves
  the pairs of components that must all be deeply equal: the elements of arrays and
  slices of equal length, the fields of structs, the entries of maps under the same
  key, what two pointers point to, what two interfaces hold. The fuel bounds the
  nesting; \<open>None\<close> is its exhaustion.
\<close>

definition deepStep :: "heap \<Rightarrow> val \<Rightarrow> val \<Rightarrow> bool + (val \<times> val) list" where
  "deepStep h v w =
     (if typeOf v \<noteq> typeOf w then Inl False
      else (case v of
              VArray t vs \<Rightarrow> Inr (zip vs (elems h w))
            | VSlice t s \<Rightarrow>
                (case w of
                   VSlice t' s' \<Rightarrow>
                     (if (s = None) \<noteq> (s' = None) then Inl False
                      else if length (elems h v) \<noteq> length (elems h w) then Inl False
                      else if map_option (\<lambda>x. (fst x, fst (snd x))) s
                              = map_option (\<lambda>x. (fst x, fst (snd x))) s'
                      then Inl True
                      else Inr (zip (elems h v) (elems h w)))
                 | _ \<Rightarrow> Inl False)
            | VIface d \<Rightarrow>
                (case w of
                   VIface d' \<Rightarrow>
                     (case d of
                        None \<Rightarrow> Inl (d' = None)
                      | Some a \<Rightarrow> (case d' of None \<Rightarrow> Inl False | Some b \<Rightarrow> Inr [(a, b)]))
                 | _ \<Rightarrow> Inl False)
            | VPtr t p \<Rightarrow>
                (case w of
                   VPtr t' p' \<Rightarrow>
                     (if p = p' then Inl True
                      else (case p of
                              None \<Rightarrow> Inl False
                            | Some l \<Rightarrow>
                                (case p' of
                                   None \<Rightarrow> Inl False
                                 | Some l' \<Rightarrow>
                                     (case load h l of
                                        None \<Rightarrow> Inl False
                                      | Some a \<Rightarrow>
                                          (case load h l' of
                                             None \<Rightarrow> Inl False
                                           | Some b \<Rightarrow> Inr [(a, b)])))))
                 | _ \<Rightarrow> Inl False)
            | VStruct fs \<Rightarrow>
                (case w of
                   VStruct gs \<Rightarrow> Inr (zip (map (\<lambda>f. snd (snd f)) fs) (map (\<lambda>f. snd (snd f)) gs))
                 | _ \<Rightarrow> Inl False)
            | VMap t m \<Rightarrow>
                (case w of
                   VMap t' m' \<Rightarrow>
                     (if (m = None) \<noteq> (m' = None) then Inl False
                      else (case m of
                              None \<Rightarrow> Inl True
                            | Some a \<Rightarrow>
                                (case m' of
                                   None \<Rightarrow> Inl False
                                 | Some b \<Rightarrow>
                                     (case table h a of
                                        None \<Rightarrow> Inl False
                                      | Some kvs \<Rightarrow>
                                          (case table h b of
                                             None \<Rightarrow> Inl False
                                           | Some kws \<Rightarrow>
                                               (if length kvs \<noteq> length kws then Inl False
                                                else if a = b then Inl True
                                                else if list_ex (\<lambda>kv. map_of kws (fst kv) = None) kvs
                                                then Inl False
                                                else Inr (map (\<lambda>kv. (snd kv, the (map_of kws (fst kv)))) kvs)))))))
                 | _ \<Rightarrow> Inl False)
            | VOther \<Rightarrow> Inl False
            | _ \<Rightarrow> Inl (v = w)))"

fun deepValueEqual :: "nat \<Rightarrow> heap \<Rightarrow> val \<Rightarrow> val \<Rightarrow> bool option"
  and deepAll :: "nat \<Rightarrow> heap \<Rightarrow> (val \<times> val) list \<Rightarrow> bool option" where
  "deepValueEqual 0 h v w = None"
| "deepValueEqual (Suc n) h v w =
     (case deepStep h v w of Inl b \<Rightarrow> Some b | Inr ps \<Rightarrow> deepAll n h ps)"
| "deepAll n h [] = Some True"
| "deepAll n h (p # ps) =
     (case deepValueEqual n h (fst p) (snd p) of
        Some True \<Rightarrow> deepAll n h ps
      | r \<Rightarrow> r)"

definition reflect_DeepEqual :: "nat \<Rightarrow> val option \<Rightarrow> val option \<Rightarrow> bool go" where
  "reflect_DeepEqual fuel x y h =
     (case x of
        None \<Rightarrow> (Inr (y = None), h)
      | Some v \<Rightarrow>
          (case y of
             None \<Rightarrow> (Inr False, h)
           | Some w \<Rightarrow>
               (if typeOf v \<noteq> typeOf w then (Inr False, h)
                else (case deepValueEqual fuel h v w of
                        None \<Rightarrow> (Inl OutOfFuel, h)
                      | Some b \<Rightarrow> (Inr b, h)))))"

section \<open>Package jsonpatch: encode.go\<close>

text \<open>
  The struct \<open>patch\<close> (lines 38-43). \<open>Value\<close> is a \<open>json.RawMessage\<close>: the JSON
  value of the member, or nothing when the member is absent or null.
\<close>

record patch =
  Op :: string
  Path :: string
  From :: string
  Value :: "json option"

text \<open>
  \<open>json.Unmarshal(data, &patches)\<close> for \<open>patches []patch\<close>: an array of objects,
  whose members are matched with the fields without regard to case. A member of the wrong
  type makes the call return an error.
\<close>

definition patchMember :: "patch \<Rightarrow> string \<times> json \<Rightarrow> error + patch" where
  "patchMember p kv =
     (let k = strings_ToLower (fst kv); j = snd kv in
      if k = ''op'' then
        (case j of JStr s \<Rightarrow> Inr (p\<lparr>Op := s\<rparr>) | JNull \<Rightarrow> Inr p
         | _ \<Rightarrow> Inl (JsonError ''json: cannot unmarshal into Go struct field patch.Op of type string''))
      else if k = ''path'' then
        (case j of JStr s \<Rightarrow> Inr (p\<lparr>Path := s\<rparr>) | JNull \<Rightarrow> Inr p
         | _ \<Rightarrow> Inl (JsonError ''json: cannot unmarshal into Go struct field patch.Path of type string''))
      else if k = ''from'' then
        (case j of JStr s \<Rightarrow> Inr (p\<lparr>From := s\<rparr>) | JNull \<Rightarrow> Inr p
         | _ \<Rightarrow> Inl (JsonError ''json: cannot unmarshal into Go struct field patch.From of type string''))
      else if k = ''value'' then
        (case j of JNull \<Rightarrow> Inr (p\<lparr>Value := None\<rparr>) | _ \<Rightarrow> Inr (p\<lparr>Value := Some j\<rparr>))
      else Inr p)"

fun patchMembers :: "patch \<Rightarrow> (string \<times> json) list \<Rightarrow> error + patch" where
  "patchMembers p [] = Inr p"
| "patchMembers p (kv # kvs) =
     (case patchMember p kv of Inl e \<Rightarrow> Inl e | Inr q \<Rightarrow> patchMembers q kvs)"

definition patchOf :: "json \<Rightarrow> error + patch" where
  "patchOf j =
     (case j of
        JObj kvs \<Rightarrow> patchMembers \<lparr>Op = [], Path = [], From = [], Value = None\<rparr> kvs
      | JNull \<Rightarrow> Inr \<lparr>Op = [], Path = [], From = [], Value = None\<rparr>
      | _ \<Rightarrow> Inl (JsonError ''json: cannot unmarshal into Go value of type jsonpatch.patch''))"

fun patchesOf :: "json list \<Rightarrow> error + patch list" where
  "patchesOf [] = Inr []"
| "patchesOf (j # js) =
     (case patchOf j of
        Inl e \<Rightarrow> Inl e
      | Inr p \<Rightarrow> (case patchesOf js of Inl e \<Rightarrow> Inl e | Inr ps \<Rightarrow> Inr (p # ps)))"

definition json_Unmarshal_patches :: "json option \<Rightarrow> error + patch list" where
  "json_Unmarshal_patches data =
     (case data of
        None \<Rightarrow> Inl (JsonError ''invalid character'')
      | Some j \<Rightarrow>
          (case j of
             JArr js \<Rightarrow> patchesOf js
           | JNull \<Rightarrow> Inr []
           | _ \<Rightarrow> Inl (JsonError ''json: cannot unmarshal into Go value of type []jsonpatch.patch'')))"

text \<open>
  \<open>bestMatch\<close> (lines 153-175), over the fields of the struct type: for each field in
  turn, its name, then the comma-separated parts of its \<open>json\<close> tag, then its name in
  lower case without hyphens and underscores.
\<close>

fun bestMatch_loop :: "string \<Rightarrow> string \<Rightarrow> (string \<times> string \<times> gtype) list \<Rightarrow> string" where
  "bestMatch_loop name key [] = []"
| "bestMatch_loop name key (f # fs) =
     (if fst f = name then fst f
      else if fst (snd f) \<noteq> [] \<and> name \<in> set (strings_Split (fst (snd f))) then fst f
      else if key = strings_ToLower (hyphens_remove (fst f)) then fst f
      else bestMatch_loop name key fs)"

definition bestMatch :: "string \<Rightarrow> (string \<times> string \<times> gtype) list \<Rightarrow> string" where
  "bestMatch name t = bestMatch_loop name (strings_ToLower (hyphens_remove name)) t"

text \<open>
  The opening lines of \<open>findNode\<close> and \<open>add\<close> (lines 92-98 and 195-201): a nil
  pointer is set to a new variable, and a pointer is replaced by what it points to.
\<close>

definition enter :: "rvalue \<Rightarrow> rvalue go" where
  "enter x =
     bindG (gets (\<lambda>h. Value_Kind h x))
       (\<lambda>k. if k = KPtr
             then bindG (gets (\<lambda>h. Value_IsNil h x))
                    (\<lambda>nil. bindG (if nil
                                   then bindG (Value_Type x)
                                          (\<lambda>t. bindG (Type_Elem t)
                                             (\<lambda>t. bindG (reflect_New t) (\<lambda>nv. Value_Set x nv)))
                                   else ret ())
                             (\<lambda>_. gets (\<lambda>h. Value_Elem h x)))
             else ret x)"

subsection \<open>add (lines 193-276)\<close>

definition add_Slice :: "nat \<Rightarrow> string \<Rightarrow> patch \<Rightarrow> rvalue \<Rightarrow> unit go" where
  "add_Slice fuel node p v =
     bindG (gets (\<lambda>h. int (Value_Len h v)))
       (\<lambda>l. if node = ''-''
             then bindG (Value_Type v)
                    (\<lambda>t. bindG (reflect_MakeSlice t (l + 1) (l + 1))
                       (\<lambda>sl. bindG (reflect_Copy sl v)
                          (\<lambda>_. bindG (Value_Index sl l)
                             (\<lambda>child. bindG (Value_Interface child)
                                (\<lambda>n. bindG (json_Unmarshal_local fuel (Value p) n)
                                   (\<lambda>n. bindG (Value_Set child (reflect_ValueOf n))
                                      (\<lambda>_. Value_Set v sl)))))))
             else (case strconv_Atoi node of
                     None \<Rightarrow> throw ErrIncorrectIndex
                   | Some pos \<Rightarrow>
                       bindG (Value_Index v pos)
                         (\<lambda>child. bindG (Value_Interface child)
                            (\<lambda>n. bindG (json_Unmarshal_local fuel (Value p) n)
                               (\<lambda>n. bindG (Value_Type v)
                                  (\<lambda>t. bindG (reflect_MakeSlice t 0 (l + 1))
                                     (\<lambda>sl. bindG (Value_Slice v 0 pos)
                                        (\<lambda>s1. bindG (reflect_AppendSlice sl s1)
                                           (\<lambda>sl. bindG (reflect_Append sl (reflect_ValueOf n))
                                              (\<lambda>sl. bindG (Value_Slice v pos l)
                                                 (\<lambda>s2. bindG (reflect_AppendSlice sl s2)
                                                    (\<lambda>sl. Value_Set v sl))))))))))))"

definition add_Map :: "nat \<Rightarrow> string \<Rightarrow> patch \<Rightarrow> rvalue \<Rightarrow> unit go" where
  "add_Map fuel node p v =
     bindG (gets (\<lambda>h. Value_IsNil h v))
       (\<lambda>nil. bindG (if nil
                      then bindG (Value_Type v)
                             (\<lambda>t. bindG (reflect_MakeMap t) (\<lambda>m. Value_Set v m))
                      else ret ())
          (\<lambda>_. bindG (Value_Type v)
             (\<lambda>t. bindG (Type_Elem t)
                (\<lambda>e. bindG (Value_Interface (reflect_Zero e))
                   (\<lambda>n. bindG (json_Unmarshal_local fuel (Value p) n)
                      (\<lambda>n. Value_SetMapIndex v node (reflect_ValueOf n)))))))"

definition add_Struct :: "nat \<Rightarrow> string \<Rightarrow> patch \<Rightarrow> rvalue \<Rightarrow> unit go" where
  "add_Struct fuel node p v =
     bindG (gets (\<lambda>h. Value_FieldByName h v (strings_Title node)))
       (\<lambda>child. bindG (gets (\<lambda>h. Value_Kind h child = KPtr \<and> Value_IsNil h child))
          (\<lambda>nilptr. if nilptr
             then bindG (Value_Type child)
                    (\<lambda>t. bindG (Type_Elem t)
                       (\<lambda>e. bindG (reflect_New e)
                          (\<lambda>n. bindG (Value_Interface n)
                             (\<lambda>i. bindG (json_Unmarshal fuel (Value p) i)
                                (\<lambda>_. Value_Set child n)))))
             else bindG (Value_Type child)
                    (\<lambda>t. bindG (reflect_New t)
                       (\<lambda>n. bindG (Value_Interface n)
                          (\<lambda>i. bindG (json_Unmarshal fuel (Value p) i)
                             (\<lambda>_. bindG (gets (\<lambda>h. Value_Elem h n))
                                (\<lambda>e. Value_Set child e)))))))"

definition add_Ptr :: "nat \<Rightarrow> string \<Rightarrow> patch \<Rightarrow> rvalue \<Rightarrow> unit go" where
  "add_Ptr fuel node p v =
     bindG (gets (\<lambda>h. Value_IsNil h v))
       (\<lambda>nil. bindG (if nil
                      then bindG (Value_Type v)
                             (\<lambda>t. bindG (Type_Elem t)
                                (\<lambda>e. bindG (reflect_New e) (\<lambda>child. Value_Set v child)))
                      else ret ())
          (\<lambda>_. bindG (gets (\<lambda>h. Value_Elem h v))
             (\<lambda>e. bindG (Value_Interface e)
                (\<lambda>el. bindG (json_Unmarshal_local fuel (Value p) el)
                   (\<lambda>el. bindG (Value_Addr (reflect_ValueOf el))
                      (\<lambda>a. Value_Set v a))))))"

definition add :: "nat \<Rightarrow> string \<Rightarrow> patch \<Rightarrow> rvalue \<Rightarrow> unit go" where
  "add fuel node p v0 =
     bindG (enter v0)
       (\<lambda>v. bindG (gets (\<lambda>h. Value_Kind h v))
          (\<lambda>k. case k of
                  KSlice \<Rightarrow> add_Slice fuel node p v
                | KMap \<Rightarrow> add_Map fuel node p v
                | KStruct \<Rightarrow> add_Struct fuel node p v
                | KPtr \<Rightarrow> add_Ptr fuel node p v
                | _ \<Rightarrow> ret ()))"

subsection \<open>replace (lines 278-330)\<close>

definition replace_Slice :: "nat \<Rightarrow> string \<Rightarrow> patch \<Rightarrow> rvalue \<Rightarrow> unit go" where
  "replace_Slice fuel node p v =
     (case strconv_Atoi node of
        None \<Rightarrow> throw ErrIncorrectIndex
      | Some pos \<Rightarrow>
          bindG (gets (\<lambda>h. int (Value_Len h v)))
            (\<lambda>l. if pos > l then throw ErrIncorrectIndex
                  else bindG (Value_Index v pos)
                         (\<lambda>child. bindG (Value_Interface child)
                            (\<lambda>n. bindG (json_Unmarshal_local fuel (Value p) n)
                               (\<lambda>n. Value_Set child (reflect_ValueOf n))))))"

definition replace_Map :: "nat \<Rightarrow> string \<Rightarrow> patch \<Rightarrow> rvalue \<Rightarrow> unit go" where
  "replace_Map fuel node p v =
     bindG (gets (\<lambda>h. Value_MapIndex h v node))
       (\<lambda>child. bindG (gets (\<lambda>h. Value_IsValid h child))
          (\<lambda>valid. if \<not> valid then throw (ErrorString ''map element not found'')
             else bindG (Value_Interface child)
                    (\<lambda>n. bindG (json_Unmarshal_local fuel (Value p) n)
                       (\<lambda>n. Value_SetMapIndex v node (reflect_ValueOf n)))))"

definition replace_Struct :: "nat \<Rightarrow> string \<Rightarrow> patch \<Rightarrow> rvalue \<Rightarrow> unit go" where
  "replace_Struct fuel node p v =
     bindG (gets (\<lambda>h. Value_FieldByName h v (strings_Title node)))
       (\<lambda>child. bindG (Value_Type child)
          (\<lambda>t. bindG (reflect_New t)
             (\<lambda>n. bindG (Value_Interface n)
                (\<lambda>i. bindG (json_Unmarshal fuel (Value p) i)
                   (\<lambda>_. bindG (gets (\<lambda>h. Value_Elem h n))
                      (\<lambda>e. Value_Set child e))))))"

definition replace :: "nat \<Rightarrow> string \<Rightarrow> patch \<Rightarrow> rvalue \<Rightarrow> unit go" where
  "replace fuel node p v0 =
     bindG (gets (\<lambda>h. if Value_Kind h v0 = KPtr then Value_Elem h v0 else v0))
       (\<lambda>v. bindG (gets (\<lambda>h. Value_Kind h v))
          (\<lambda>k. case k of
                  KArray \<Rightarrow> replace_Slice fuel node p v
                | KSlice \<Rightarrow> replace_Slice fuel node p v
                | KMap \<Rightarrow> replace_Map fuel node p v
                | KStruct \<Rightarrow> replace_Struct fuel node p v
                | KPtr \<Rightarrow> throw ErrNotImplemented
                | _ \<Rightarrow> ret ()))"

subsection \<open>remove (lines 332-364)\<close>

definition remove_Slice :: "string \<Rightarrow> patch \<Rightarrow> rvalue \<Rightarrow> unit go" where
  "remove_Slice node p v =
     (case strconv_Atoi node of
        None \<Rightarrow> throw ErrIncorrectIndex
      | Some pos \<Rightarrow>
          bindG (gets (\<lambda>h. int (Value_Len h v)))
            (\<lambda>l. bindG (Value_Type v)
               (\<lambda>t. bindG (reflect_MakeSlice t 0 (l - 1))
                  (\<lambda>sl. bindG (Value_Slice v 0 pos)
                     (\<lambda>s1. bindG (reflect_AppendSlice sl s1)
                        (\<lambda>sl. bindG (Value_Slice v (pos + 1) l)
                           (\<lambda>s2. bindG (reflect_AppendSlice sl s2)
                              (\<lambda>sl. Value_Set v sl))))))))"

definition remove_Map :: "string \<Rightarrow> patch \<Rightarrow> rvalue \<Rightarrow> unit go" where
  "remove_Map node p v =
     bindG (gets (\<lambda>h. Value_MapIndex h v node))
       (\<lambda>child. bindG (Value_Type child)
          (\<lambda>t. Value_SetMapIndex v node (reflect_Zero t)))"

definition remove_Struct :: "string \<Rightarrow> patch \<Rightarrow> rvalue \<Rightarrow> unit go" where
  "remove_Struct node p v =
     bindG (gets (\<lambda>h. Value_FieldByName h v (strings_Title node)))
       (\<lambda>child. bindG (Value_Type child)
          (\<lambda>t. Value_Set child (reflect_Zero t)))"

definition remove :: "string \<Rightarrow> patch \<Rightarrow> rvalue \<Rightarrow> unit go" where
  "remove node p v0 =
     bindG (gets (\<lambda>h. if Value_Kind h v0 = KPtr then reflect_Indirect h v0 else v0))
       (\<lambda>v. bindG (gets (\<lambda>h. Value_Kind h v))
          (\<lambda>k. case k of
                  KArray \<Rightarrow> remove_Slice node p v
                | KSlice \<Rightarrow> remove_Slice node p v
                | KMap \<Rightarrow> remove_Map node p v
                | KStruct \<Rightarrow> remove_Struct node p v
                | KPtr \<Rightarrow> throw ErrNotImplemented
                | _ \<Rightarrow> ret ()))"

subsection \<open>test (lines 366-406)\<close>

text \<open>
  The switch of \<open>test\<close> selects the child, returns at once (\<open>Inl\<close> of the result), or
  leaves the child the zero Value.
\<close>

definition test_child :: "string \<Rightarrow> rvalue \<Rightarrow> (unit + rvalue) go" where
  "test_child node v =
     bindG (gets (\<lambda>h. Value_Kind h v))
       (\<lambda>k. case k of
               KArray \<Rightarrow>
                 (case strconv_Atoi node of
                    None \<Rightarrow> throw ErrIncorrectIndex
                  | Some pos \<Rightarrow>
                      bindG (Value_Index v pos)
                        (\<lambda>child. gets (\<lambda>h. if Value_Kind h child = KPtr
                                           then (if Value_IsNil h child then Inl ()
                                                 else Inr (reflect_Indirect h child))
                                           else Inr child)))
             | KSlice \<Rightarrow>
                 (case strconv_Atoi node of
                    None \<Rightarrow> throw ErrIncorrectIndex
                  | Some pos \<Rightarrow>
                      bindG (Value_Index v pos)
                        (\<lambda>child. gets (\<lambda>h. if Value_Kind h child = KPtr
                                           then (if Value_IsNil h child then Inl ()
                                                 else Inr (reflect_Indirect h child))
                                           else Inr child)))
             | KMap \<Rightarrow> gets (\<lambda>h. Inr (Value_MapIndex h v node))
             | KStruct \<Rightarrow> gets (\<lambda>h. Inr (Value_FieldByName h v (strings_Title node)))
             | KPtr \<Rightarrow> throw ErrNotImplemented
             | _ \<Rightarrow> ret (Inr RInvalid))"

definition test :: "nat \<Rightarrow> string \<Rightarrow> patch \<Rightarrow> rvalue \<Rightarrow> unit go" where
  "test fuel node p v0 =
     bindG (gets (\<lambda>h. if Value_Kind h v0 = KPtr then reflect_Indirect h v0 else v0))
       (\<lambda>v. bindG (test_child node v)
          (\<lambda>c. case c of
                  Inl _ \<Rightarrow> ret ()
                | Inr child \<Rightarrow>
                    bindG (Value_Interface child)
                      (\<lambda>n. bindG (Value_Interface child)
                         (\<lambda>m. bindG (json_Unmarshal_local fuel (Value p) n)
                            (\<lambda>n. bindG (reflect_DeepEqual fuel n m)
                               (\<lambda>eq. if \<not> eq then throw (ErrorString ''elements are not equal'')
                                      else ret ()))))))"

subsection \<open>applyNode (lines 177-191)\<close>

text \<open>
  A call whose returned error is not used: \<open>add(node, p, x)\<close> as a statement. The heap
  keeps what the call wrote, and a panic of the call is still a panic.
\<close>

definition discard :: "unit go \<Rightarrow> unit go" where
  "discard m h =
     (case m h of
        (Inl e, h') \<Rightarrow> (if returned e then (Inr (), h') else (Inl e, h'))
      | (Inr u, h') \<Rightarrow> (Inr (), h'))"

definition applyNode :: "nat \<Rightarrow> string \<Rightarrow> patch \<Rightarrow> rvalue \<Rightarrow> unit go" where
  "applyNode fuel node p x =
     (if Op p = ''add'' then discard (add fuel node p x)
      else if Op p = ''replace'' then discard (replace fuel node p x)
      else if Op p = ''remove'' then discard (remove node p x)
      else if Op p = ''test'' then discard (test fuel node p x)
      else if Op p = ''copy'' then ret ()
      else if Op p = ''move'' then ret ()
      else ret ())"

subsection \<open>rapply and findNode (lines 82-149)\<close>

text \<open>The switch of \<open>findNode\<close> (lines 99-126): the child named by \<open>root\<close>.\<close>

definition findNode_index :: "string \<Rightarrow> rvalue \<Rightarrow> rvalue go" where
  "findNode_index root x =
     (case strconv_Atoi root of
        None \<Rightarrow> throw ErrIncorrectIndex
      | Some pos \<Rightarrow>
          bindG (gets (\<lambda>h. int (Value_Len h x)))
            (\<lambda>l. if pos \<ge> l then throw ErrIncorrectIndex else Value_Index x pos))"

definition findNode_child :: "string \<Rightarrow> rvalue \<Rightarrow> rvalue go" where
  "findNode_child root x =
     bindG (gets (\<lambda>h. Value_Kind h x))
       (\<lambda>k. case k of
               KSlice \<Rightarrow> findNode_index root x
             | KArray \<Rightarrow> findNode_index root x
             | KMap \<Rightarrow> gets (\<lambda>h. Value_MapIndex h x root)
             | KStruct \<Rightarrow>
                 bindG (gets (\<lambda>h. structFields h x))
                   (\<lambda>t. if bestMatch root t = [] then throw ErrIncorrectIndex
                         else gets (\<lambda>h. Value_FieldByName h x (bestMatch root t)))
             | KPtr \<Rightarrow> gets (\<lambda>h. Value_Elem h x)
             | KInvalid \<Rightarrow> throw (ErrUnsupported root)
             | KOther \<Rightarrow> throw (ErrUnsupported root)
             | KInterface \<Rightarrow> throw (ErrUnsupported root)
             | _ \<Rightarrow> throw ErrGarbage)"

function rapply :: "nat \<Rightarrow> string \<Rightarrow> patch \<Rightarrow> rvalue \<Rightarrow> unit go"
  and findNode :: "nat \<Rightarrow> string \<Rightarrow> string \<Rightarrow> patch \<Rightarrow> rvalue \<Rightarrow> unit go" where
  "rapply fuel path p x =
     (if length (strings_SplitN path) = 2
      then findNode fuel (strings_SplitN path ! 0) (strings_SplitN path ! 1) p x
      else applyNode fuel (strings_SplitN path ! 0) p x)"
| "findNode fuel root node p x0 =
     bindG (enter x0)
       (\<lambda>x. bindG (findNode_child root x)
          (\<lambda>child. bindG (gets (\<lambda>h. Value_Kind h child))
             (\<lambda>k. if k = KPtr
                   then bindG (gets (\<lambda>h. Value_IsNil h child))
                          (\<lambda>nil. if \<not> nil then rapply fuel node p child
                                  else bindG (Value_Type child)
                                         (\<lambda>t. bindG (Type_Elem t)
                                            (\<lambda>e. bindG (reflect_New e)
                                               (\<lambda>newval. bindG (Value_Set child newval)
                                                  (\<lambda>_. rapply fuel node p child)))))
                   else bindG (gets (\<lambda>h. Value_IsValid h child))
                          (\<lambda>valid. bindG (if \<not> valid
                                           then bindG (Value_Type child)
                                                  (\<lambda>t. bindG (Type_Elem t)
                                                     (\<lambda>e. bindG (reflect_New e)
                                                        (\<lambda>newval. bindG (gets (\<lambda>h. Value_Elem h newval))
                                                           (\<lambda>ne. Value_Set child ne))))
                                           else ret ())
                             (\<lambda>_. if Value_CanAddr child
                                   then bindG (Value_Addr child) (\<lambda>a. rapply fuel node p a)
                                   else throw (ErrUnsupported root))))))"
  by pat_completeness auto
termination
proof (relation "measure (\<lambda>s. case s of
                   Inl (fuel, path, p, x) \<Rightarrow> 2 * length path + 1
                 | Inr (fuel, root, node, p, x) \<Rightarrow> 2 * length node + 2)")
  show "wf (measure (\<lambda>s. case s of
                   Inl (fuel, path, p, x) \<Rightarrow> 2 * length path + 1
                 | Inr (fuel, root, node, p, x) \<Rightarrow> 2 * length node + 2))"
    by simp
next
  fix fuel :: nat and path :: string and p :: patch and x :: rvalue
  assume two: "length (strings_SplitN path) = 2"
  then have slash: "CHR ''/'' \<in> set path"
    by (simp add: strings_SplitN_def split: if_splits)
  then have "dropWhile (\<lambda>c. c \<noteq> CHR ''/'') path \<noteq> []"
    by simp
  then have "length (tl (dropWhile (\<lambda>c. c \<noteq> CHR ''/'') path))
               < length (dropWhile (\<lambda>c. c \<noteq> CHR ''/'') path)"
    by (cases "dropWhile (\<lambda>c. c \<noteq> CHR ''/'') path") simp_all
  moreover have "length (dropWhile (\<lambda>c. c \<noteq> CHR ''/'') path) \<le> length path"
    by (rule length_dropWhile_le)
  ultimately have "length (tl (dropWhile (\<lambda>c. c \<noteq> CHR ''/'') path)) < length path"
    by (rule less_le_trans)
  then have "length (strings_SplitN path ! 1) < length path"
    using slash by (simp add: strings_SplitN_def)
  then show "(Inr (fuel, strings_SplitN path ! 0, strings_SplitN path ! 1, p, x),
              Inl (fuel, path, p, x))
             \<in> measure (\<lambda>s. case s of
                   Inl (fuel, path, p, x) \<Rightarrow> 2 * length path + 1
                 | Inr (fuel, root, node, p, x) \<Rightarrow> 2 * length node + 2)"
    by simp
qed simp_all

section \<open>Package deep\<close>

text \<open>A loop over a list whose body may return an error (\<open>return err\<close>) or go on.\<close>

fun forEach :: "'a list \<Rightarrow> ('a \<Rightarrow> unit go) \<Rightarrow> unit go" where
  "forEach [] f = ret ()"
| "forEach (a # as) f = bindG (f a) (\<lambda>_. forEach as f)"

text \<open>\<open>Value.Field(i)\<close> as \<open>copyStruct\<close> calls it: a panic on anything but a struct.\<close>

definition Value_FieldG :: "rvalue \<Rightarrow> nat \<Rightarrow> rvalue go" where
  "Value_FieldG x i h =
     (case Value_Field h x i of
        RInvalid \<Rightarrow> (Inl (Panic ''reflect: call of reflect.Value.Field on a value that is not a struct''), h)
      | r \<Rightarrow> (Inr r, h))"

text \<open>\<open>copyPrimitives\<close> (lines 219-228).\<close>

definition copyPrimitives :: "rvalue \<Rightarrow> rvalue \<Rightarrow> unit go" where
  "copyPrimitives x0 y0 =
     bindG (gets (\<lambda>h. if Value_Kind h x0 = KPtr then reflect_Indirect h x0 else x0))
       (\<lambda>x. bindG (gets (\<lambda>h. if Value_Kind h y0 = KPtr then reflect_Indirect h y0 else y0))
          (\<lambda>y. Value_Set y x))"

text \<open>
  The bodies of \<open>copyArray\<close> (lines 81-117), \<open>copyMap\<close> (lines 119-162) and
  \<open>copyStruct\<close> (lines 164-217), with the function they call back, \<open>rcopy\<close>, as the
  argument \<open>rc\<close>. Each loop has its body as a step of its own.
\<close>

definition copyArray_step :: "(rvalue \<Rightarrow> rvalue \<Rightarrow> unit go) \<Rightarrow> rvalue \<Rightarrow> rvalue \<Rightarrow> nat \<Rightarrow> unit go" where
  "copyArray_step rc x y i =
     bindG (Value_Index x (int i))
       (\<lambda>vx. bindG (Value_Index y (int i))
          (\<lambda>vy. bindG (gets (\<lambda>h. Value_Kind h vx))
             (\<lambda>kx. if kx = KPtr then rc vx vy
                    else if \<not> Value_CanAddr vx then Value_Set vy vx
                    else bindG (if \<not> Value_CanAddr vy
                                then bindG (Value_Interface vx)
                                       (\<lambda>i. Value_Set vy (reflect_ValueOf i))
                                else ret ())
                           (\<lambda>_. bindG (Value_Addr vx)
                              (\<lambda>a. bindG (Value_Addr vy) (\<lambda>b. rc a b))))))"

definition copyArray_body :: "(rvalue \<Rightarrow> rvalue \<Rightarrow> unit go) \<Rightarrow> rvalue \<Rightarrow> rvalue \<Rightarrow> unit go" where
  "copyArray_body rc x0 y0 =
     bindG (gets (\<lambda>h. if Value_Kind h x0 = KPtr then Value_Elem h x0 else x0))
       (\<lambda>x. bindG (gets (\<lambda>h. if Value_Kind h y0 = KPtr then Value_Elem h y0 else y0))
          (\<lambda>y. bindG (gets (\<lambda>h. Value_Len h x))
             (\<lambda>l. bindG (gets (\<lambda>h. Value_Kind h x))
                (\<lambda>k. bindG (if k = KSlice
                             then bindG (Value_Type x)
                                    (\<lambda>t. bindG (reflect_MakeSlice t (int l) (int l))
                                       (\<lambda>sl. Value_Set y sl))
                             else ret ())
                   (\<lambda>_. forEach [0..<l] (copyArray_step rc x y))))))"

definition copyMap_step :: "(rvalue \<Rightarrow> rvalue \<Rightarrow> unit go) \<Rightarrow> rvalue \<Rightarrow> rvalue \<Rightarrow> string \<Rightarrow> unit go" where
  "copyMap_step rc x y key =
     bindG (gets (\<lambda>h. Value_MapIndex h x key))
       (\<lambda>vx. bindG (gets (\<lambda>h. Value_MapIndex h y key))
          (\<lambda>vy. bindG (gets (\<lambda>h. Value_Kind h vx))
             (\<lambda>kx. if kx = KPtr
                    then bindG (gets (\<lambda>h. Value_Elem h vx))
                           (\<lambda>el. bindG (gets (\<lambda>h. Value_IsValid h el))
                              (\<lambda>valid. if \<not> valid then ret ()
                                 else bindG (Value_Type el)
                                        (\<lambda>t. bindG (reflect_New t)
                                           (\<lambda>nv. bindG (Value_SetMapIndex y key nv)
                                              (\<lambda>_. bindG (gets (\<lambda>h. Value_MapIndex h y key))
                                                 (\<lambda>vy. rc vx vy))))))
                    else if \<not> Value_CanAddr vx then Value_SetMapIndex y key vx
                    else bindG (Value_Addr vx)
                           (\<lambda>a. bindG (Value_Addr (if \<not> Value_CanAddr vy then vx else vy))
                              (\<lambda>b. bindG (rc a b)
                                 (\<lambda>_. Value_SetMapIndex y key
                                         (if \<not> Value_CanAddr vy then vx else vy)))))))"

definition copyMap_body :: "(rvalue \<Rightarrow> rvalue \<Rightarrow> unit go) \<Rightarrow> rvalue \<Rightarrow> rvalue \<Rightarrow> unit go" where
  "copyMap_body rc x0 y0 =
     bindG (gets (\<lambda>h. if Value_Kind h x0 = KPtr then reflect_Indirect h x0 else x0))
       (\<lambda>x. bindG (gets (\<lambda>h. if Value_Kind h y0 = KPtr then reflect_Indirect h y0 else y0))
          (\<lambda>y. bindG (gets (\<lambda>h. Value_IsNil h x))
             (\<lambda>nil. if nil then ret ()
                else bindG (gets (\<lambda>h. Value_MapKeys h x))
                       (\<lambda>keys. bindG (Value_Type x)
                          (\<lambda>t. bindG (reflect_MakeMap t)
                             (\<lambda>m. bindG (Value_Set y m)
                                (\<lambda>_. forEach keys (copyMap_step rc x y))))))))"

text \<open>
  The test of \<open>copyStruct\<close> for a private field (line 187): the first byte of the name
  is changed by \<open>strings.ToUpper\<close>.
\<close>

definition privateName :: "string \<Rightarrow> bool" where
  "privateName name = (take 1 name \<noteq> strings_ToUpper (take 1 name))"

definition copyStruct_step ::
  "(rvalue \<Rightarrow> rvalue \<Rightarrow> unit go) \<Rightarrow> rvalue \<Rightarrow> rvalue \<Rightarrow> (string \<times> string \<times> gtype) list \<Rightarrow> nat \<Rightarrow> unit go" where
  "copyStruct_step rc x y fs i =
     (if privateName (fst (fs ! i)) then ret ()
      else bindG (Value_FieldG x i)
             (\<lambda>vx. bindG (Value_FieldG y i)
                (\<lambda>vy. bindG (gets (\<lambda>h. Value_Kind h vx))
                   (\<lambda>kx. if kx = KPtr
                          then bindG (gets (\<lambda>h. Value_Elem h vx))
                                 (\<lambda>el. bindG (gets (\<lambda>h. Value_IsValid h el))
                                    (\<lambda>valid. if \<not> valid then ret ()
                                       else bindG (Value_Type el)
                                              (\<lambda>t. bindG (reflect_New t)
                                                 (\<lambda>nv. bindG (Value_Set vy nv)
                                                    (\<lambda>_. rc vx vy)))))
                          else if \<not> Value_CanAddr vx then Value_Set vy vx
                          else bindG (Value_Addr vx)
                                 (\<lambda>a. bindG (Value_Addr (if \<not> Value_CanAddr vy then vx else vy))
                                    (\<lambda>b. rc a b))))))"

definition copyStruct_body :: "(rvalue \<Rightarrow> rvalue \<Rightarrow> unit go) \<Rightarrow> rvalue \<Rightarrow> rvalue \<Rightarrow> unit go" where
  "copyStruct_body rc x0 y0 =
     bindG (gets (\<lambda>h. if Value_Kind h x0 = KPtr then reflect_Indirect h x0 else x0))
       (\<lambda>x. bindG (gets (\<lambda>h. if Value_Kind h y0 = KPtr then reflect_Indirect h y0 else y0))
          (\<lambda>y. bindG (gets (\<lambda>h. Value_Kind h x))
             (\<lambda>k. if k = KPtr then rc x y
                else bindG (gets (\<lambda>h. structFields h x))
                       (\<lambda>fs. bindG (gets (\<lambda>h. Value_IsValid h y))
                          (\<lambda>valid. bindG (if valid then Value_Set y x else ret ())
                             (\<lambda>_. forEach [0..<length fs] (copyStruct_step rc x y fs)))))))"

text \<open>
  The body of \<open>rcopy\<close> (lines 39-79); \<open>rc\<close> is \<open>rcopy\<close> itself, in the three bodies
  above and in the case of a pointer.
\<close>

definition rcopy_body :: "(rvalue \<Rightarrow> rvalue \<Rightarrow> unit go) \<Rightarrow> rvalue \<Rightarrow> rvalue \<Rightarrow> unit go" where
  "rcopy_body rc x0 y0 =
     bindG (gets (\<lambda>h. if Value_Kind h x0 = KPtr then Value_Elem h x0 else x0))
       (\<lambda>x. bindG (enter y0)
          (\<lambda>y. bindG (gets (\<lambda>h. Value_Kind h x))
             (\<lambda>k. case k of
                     KSlice \<Rightarrow>
                       bindG (Value_Addr x) (\<lambda>a. bindG (Value_Addr y) (\<lambda>b. copyArray_body rc a b))
                   | KArray \<Rightarrow>
                       bindG (Value_Addr x) (\<lambda>a. bindG (Value_Addr y) (\<lambda>b. copyArray_body rc a b))
                   | KMap \<Rightarrow>
                       bindG (Value_Addr x) (\<lambda>a. bindG (Value_Addr y) (\<lambda>b. copyMap_body rc a b))
                   | KStruct \<Rightarrow>
                       bindG (Value_Addr x) (\<lambda>a. bindG (Value_Addr y) (\<lambda>b. copyStruct_body rc a b))
                   | KPtr \<Rightarrow>
                       bindG (gets (\<lambda>h. Value_Elem h x))
                         (\<lambda>vx. bindG (Value_Type vx)
                            (\<lambda>t. bindG (reflect_New t)
                               (\<lambda>nv. bindG (Value_Set y nv)
                                  (\<lambda>_. bindG (gets (\<lambda>h. Value_Elem h y))
                                     (\<lambda>vy. if \<not> Value_CanAddr vx \<or> \<not> Value_CanAddr vy
                                            then Value_Set vy vx
                                            else bindG (Value_Addr vx)
                                                   (\<lambda>a. bindG (Value_Addr vy) (\<lambda>b. rc a b)))))))
                   | KInvalid \<Rightarrow> throw DeepErrUnsupported
                   | KOther \<Rightarrow> throw DeepErrUnsupported
                   | KInterface \<Rightarrow> throw DeepErrUnsupported
                   | _ \<Rightarrow>
                       (if \<not> Value_CanAddr x \<or> \<not> Value_CanAddr y then Value_Set y x
                        else bindG (Value_Addr x)
                               (\<lambda>a. bindG (Value_Addr y) (\<lambda>b. copyPrimitives a b))))))"

text \<open>
  \<open>rcopy\<close> follows the data, and does not return on a cyclic value: every call takes
  one unit of fuel.
\<close>

fun rcopy :: "nat \<Rightarrow> rvalue \<Rightarrow> rvalue \<Rightarrow> unit go" where
  "rcopy 0 x y = throw OutOfFuel"
| "rcopy (Suc n) x y = rcopy_body (rcopy n) x y"

definition copyArray :: "nat \<Rightarrow> rvalue \<Rightarrow> rvalue \<Rightarrow> unit go" where
  "copyArray fuel x y = copyArray_body (rcopy fuel) x y"

definition copyMap :: "nat \<Rightarrow> rvalue \<Rightarrow> rvalue \<Rightarrow> unit go" where
  "copyMap fuel x y = copyMap_body (rcopy fuel) x y"

definition copyStruct :: "nat \<Rightarrow> rvalue \<Rightarrow> rvalue \<Rightarrow> unit go" where
  "copyStruct fuel x y = copyStruct_body (rcopy fuel) x y"

text \<open>\<open>Copy\<close> (lines 19-37).\<close>

definition Copy :: "nat \<Rightarrow> val option \<Rightarrow> val option \<Rightarrow> unit go" where
  "Copy fuel x y =
     bindG (gets (\<lambda>h. Value_Kind h (reflect_ValueOf x)))
       (\<lambda>kx. if kx \<noteq> KPtr then throw DeepErrNonPointer
              else bindG (gets (\<lambda>h. Value_IsNil h (reflect_ValueOf x)))
                     (\<lambda>nil. if nil then ret ()
                        else bindG (gets (\<lambda>h. Value_Kind h (reflect_ValueOf y)))
                               (\<lambda>ky. if ky \<noteq> KPtr then throw DeepErrNonPointer
                                      else if kx \<noteq> ky then throw DeepErrDifferentKinds
                                      else rcopy fuel (reflect_ValueOf x) (reflect_ValueOf y))))"

section \<open>Apply (encode.go, lines 49-80)\<close>

text \<open>\<open>if err != nil { return ErrCouldNotCopy }\<close>: a returned error is replaced.\<close>

definition returning :: "error \<Rightarrow> unit go \<Rightarrow> unit go" where
  "returning e0 m h =
     (case m h of
        (Inl e, h') \<Rightarrow> (if returned e then (Inl e0, h') else (Inl e, h'))
      | (Inr u, h') \<Rightarrow> (Inr u, h'))"

text \<open>
  \<open>data\<close> is the patch document (\<open>None\<close> when the bytes are not JSON), \<open>x\<close> the
  interface value passed as the target. The fuel is that of the copy, of the decoder
  and of the deep equality.
\<close>

definition Apply :: "nat \<Rightarrow> json option \<Rightarrow> val option \<Rightarrow> unit go" where
  "Apply fuel data x =
     bindG (gets (\<lambda>h. if Value_Kind h (reflect_ValueOf x) = KPtr
                        then Value_IsNil h (reflect_ValueOf x) else True))
       (\<lambda>bad. if bad then throw ErrNonPointer
          else (case json_Unmarshal_patches data of
                  Inl err \<Rightarrow> throw err
                | Inr patches \<Rightarrow>
                    bindG (gets (\<lambda>h. Value_Elem h (reflect_ValueOf x)))
                      (\<lambda>e. bindG (Value_Type e)
                         (\<lambda>t. bindG (reflect_New t)
                            (\<lambda>ry. bindG (Value_Interface ry)
                               (\<lambda>yi. bindG (returning ErrCouldNotCopy (Copy fuel x yi))
                                  (\<lambda>_. bindG (forEach patches
                                                (\<lambda>p. rapply fuel (strings_Trim (Path p)) p ry))
                                     (\<lambda>_. bindG (gets (\<lambda>h. Value_Elem h ry))
                                        (\<lambda>re. Value_Set e re)))))))))"

section \<open>A target for the scenarios\<close>

text \<open>
  A record in the manner of \<open>testUser\<close> of encode_test.go, without the recursive field:
  \<open>struct { Name string; Age int; Phones []string; M map[string]string }\<close>, and a heap
  in which the variable at cell 0 holds
  \<open>{Name: "hobbes", Age: 100, Phones: ["37489239"], M: {"a": "hello"}}\<close>. The target
  handed to \<open>Apply\<close> is the pointer to that variable.
\<close>

definition userT :: gtype where
  "userT = TStruct [(''Name'', [], TString), (''Age'', [], TInt),
                    (''Phones'', [], TSlice TString), (''M'', [], TMap TString)]"

definition hobbes :: heap where
  "hobbes =
     [CVar (VStruct [(''Name'', [], VString ''hobbes''), (''Age'', [], VInt 100),
                     (''Phones'', [], VSlice TString (Some (1, 0, 1))),
                     (''M'', [], VMap TString (Some 2))]),
      CVar (VArray TString [VString ''37489239'']),
      CMap [(''a'', VString ''hello'')]]"

definition target :: "val option" where
  "target = Some (VPtr userT (Some (0, [])))"

text \<open>The object \<open>{"op": op, "path": path, "value": value}\<close> of a patch document.\<close>

definition operation :: "string \<Rightarrow> string \<Rightarrow> json \<Rightarrow> json" where
  "operation opname path v = JObj [(''op'', JStr opname), (''path'', JStr path), (''value'', v)]"

text \<open>
  What a variable of the heap holds, with every slice replaced by its elements and every
  map by its table, one level deep: the contents of the target as a caller reads them.
\<close>

definition fieldsOf :: "heap \<Rightarrow> loc \<Rightarrow> (string \<times> val) list" where
  "fieldsOf h l =
     (case load h l of
        Some (VStruct fs) \<Rightarrow> map (\<lambda>f. (fst f, snd (snd f))) fs
      | _ \<Rightarrow> [])"

definition tableOf :: "heap \<Rightarrow> val \<Rightarrow> (string \<times> val) list" where
  "tableOf h v =
     (case v of
        VMap t (Some a) \<Rightarrow> (case table h a of Some kvs \<Rightarrow> kvs | None \<Rightarrow> [])
      | _ \<Rightarrow> [])"

section \<open>Properties\<close>

subsection \<open>Auxiliary facts\<close>

lemma typeOf_zero: "typeOf (zero t) = t"
proof (induction t rule: zero.induct)
  case (11 fs)
  then show ?case by (auto intro!: map_idI simp: case_prod_beta)
qed simp_all

lemma bindG_gets: "bindG (gets f) g h = g (f h) h"
  by (simp add: bindG_def gets_def)

lemma bindG_ret: "bindG (ret a) f = f a"
  by (rule ext) (simp add: bindG_def ret_def)

lemma bindG_throw: "bindG (throw e) f = throw e"
  by (rule ext) (simp add: bindG_def throw_def)

lemma map_of_tableSet: "map_of (tableSet k v kvs) k = Some v"
  by (induction kvs) auto

lemma map_of_tableSet_other: "k' \<noteq> k \<Longrightarrow> map_of (tableSet k v kvs) k' = map_of kvs k'"
  by (induction kvs) auto

lemma map_fst_tableSet: "map_of kvs k = Some w \<Longrightarrow> map fst (tableSet k v kvs) = map fst kvs"
  by (induction kvs) (auto split: if_splits)

subsection \<open>remove on a map\<close>

text \<open>
  Claim C9. \<open>remove\<close> is handed a pointer \<open>x\<close> to a map variable. When the terminal
  segment \<open>node\<close> is a key of the map, \<open>remove\<close> returns no error, and afterwards the
  table of the map has the same keys in the same order, \<open>node\<close> is still one of them and
  is mapped to the zero value of the element type, and every other key keeps its value.
  The hypotheses say that \<open>x\<close> is exported, that it points to a variable holding a
  non-nil map with element type \<open>t\<close>, and that the element under \<open>node\<close> has that type.
\<close>

theorem remove_map_keeps_key:
  assumes x: "valueAt h x = Some (VPtr (TMap t) (Some l))" and ro: "\<not> isRO x"
    and m: "load h l = Some (VMap t (Some a))" and tb: "table h a = Some kvs"
    and k: "map_of kvs node = Some w" and ty: "typeOf w = t"
  shows "remove node p x h = (Inr (), h[a := CMap (tableSet node (zero t) kvs)])
         \<and> table (h[a := CMap (tableSet node (zero t) kvs)]) a = Some (tableSet node (zero t) kvs)
         \<and> map fst (tableSet node (zero t) kvs) = map fst kvs
         \<and> map_of (tableSet node (zero t) kvs) node = Some (zero t)
         \<and> (\<forall>k'. k' \<noteq> node \<longrightarrow> map_of (tableSet node (zero t) kvs) k' = map_of kvs k')"
proof -
  let ?v = "RLoc l False"
  have kx: "Value_Kind h x = KPtr"
    using x by (simp add: Value_Kind_def)
  have ex: "reflect_Indirect h x = ?v"
    using x ro kx by (simp add: reflect_Indirect_def Value_Elem_def)
  have vv: "valueAt h ?v = Some (VMap t (Some a))"
    using m by (simp add: valueAt_def)
  have kv: "Value_Kind h ?v = KMap"
    using vv by (simp add: Value_Kind_def)
  have child: "Value_MapIndex h ?v node = RVal w False"
    using vv tb k by (simp add: Value_MapIndex_def isRO_def)
  have tchild: "Value_Type (RVal w False) h = (Inr t, h)"
    using ty by (simp add: Value_Type_def valueAt_def)
  have set: "Value_SetMapIndex ?v node (reflect_Zero t) h
               = (Inr (), h[a := CMap (tableSet node (zero t) kvs)])"
    using vv tb by (simp add: Value_SetMapIndex_def reflect_Zero_def isRO_def valueAt_def
        assignTo_def typeOf_zero)
  have "remove_Map node p ?v h = (Inr (), h[a := CMap (tableSet node (zero t) kvs)])"
    by (simp add: remove_Map_def bindG_gets child) (simp add: bindG_def tchild set)
  then have run: "remove node p x h = (Inr (), h[a := CMap (tableSet node (zero t) kvs)])"
    by (simp add: remove_def bindG_gets kx ex kv)
  have len: "a < length h"
    using tb by (simp add: table_def split: if_splits)
  have tab: "table (h[a := CMap (tableSet node (zero t) kvs)]) a
               = Some (tableSet node (zero t) kvs)"
    using len by (simp add: table_def)
  show ?thesis
    using run tab map_fst_tableSet [OF k] map_of_tableSet map_of_tableSet_other by blast
qed

text \<open>
  The scenario of the specification: removing \<open>/m/a\<close> from \<open>{"m":{"a":"hello"}}\<close>
  leaves \<open>m\<close> with the key \<open>a\<close> mapped to the empty string.
\<close>

theorem remove_map_keeps_key_witness:
  "remove ''a'' \<lparr>Op = ''remove'', Path = ''/m/a'', From = [], Value = None\<rparr>
     (RVal (VPtr (TMap TString) (Some (0, []))) False)
     [CVar (VMap TString (Some 1)), CMap [(''a'', VString ''hello'')]]
   = (Inr (), [CVar (VMap TString (Some 1)), CMap [(''a'', VString [])]])"
  using remove_map_keeps_key [of "[CVar (VMap TString (Some 1)), CMap [(''a'', VString ''hello'')]]"
      "RVal (VPtr (TMap TString) (Some (0, []))) False" TString "(0, [])" 1
      "[(''a'', VString ''hello'')]" "''a''" "VString ''hello''"]
  by (simp add: valueAt_def isRO_def load_def table_def)

end
